theory Spec2Isabelle
  imports Complex_Main "HOL-Library.Word"
begin

unbundle bit_operations_syntax

section \<open>Backend: the Task Ownership Gate\<close>

text \<open>
  The backend is FastAPI code given in the feature documents of the repository.  The gate
  is the dependency \<open>get_current_user\<close> followed by the comparison every route handler
  starts with (pattern \<open>create_task\<close>).  Python values that occur in a decoded token
  are strings and integers; a decoded token is a \<open>dict\<close>.
\<close>

datatype pyval = PStr string | PInt int

type_synonym claims = "string \<rightharpoonup> pyval"

text \<open>
  Exceptions that leave a handler.  \<open>HTTPException\<close> carries \<open>status_code\<close> and
  \<open>detail\<close>; \<open>KeyError\<close> and \<open>IndexError\<close> are what a \<open>dict\<close> lookup and a list
  index raise in Python; \<open>RequestValidationError\<close> is what a request body that does not
  fit its schema is refused with (status 422), here with the names of the fields at fault;
  \<open>IntegrityError\<close> is what a commit raises when a primary key is taken.
\<close>

datatype exn =
    HTTPException nat string
  | KeyError string
  | IndexError
  | RequestValidationError "string list"
  | IntegrityError

text \<open>
  \<open>jwt.decode\<close> belongs to the PyJWT library: it is a parameter of the model.  It either
  returns the payload or raises; the failures the gate is specified for (expired, bad
  signature, malformed) are all subclasses of \<open>jwt.InvalidTokenError\<close>, the class the
  handler catches.
\<close>

datatype jwt_error = ExpiredSignatureError | InvalidSignatureError | DecodeError

type_synonym jwt_decoder = "string \<Rightarrow> string option \<Rightarrow> jwt_error + claims"

subsection \<open>Python string operations used by the gate\<close>

definition startswith :: "string \<Rightarrow> string \<Rightarrow> bool" where
  "startswith s p = (take (length p) s = p)"

text \<open>
  \<open>s.split(sep)\<close> with an explicit one-character separator: empty pieces are kept.
  JavaScript's \<open>s.split(sep)\<close> does the same for a one-character separator.
\<close>

fun split_sep :: "'a \<Rightarrow> 'a list \<Rightarrow> 'a list list" where
  "split_sep sep [] = [[]]"
| "split_sep sep (c # cs) =
     (if c = sep then [] # split_sep sep cs
      else (case split_sep sep cs of
              [] \<Rightarrow> [[c]]
            | w # ws \<Rightarrow> (c # w) # ws))"

definition py_index :: "'a list \<Rightarrow> nat \<Rightarrow> exn + 'a" where
  "py_index xs i = (if i < length xs then Inr (xs ! i) else Inl IndexError)"

definition py_getitem :: "claims \<Rightarrow> string \<Rightarrow> exn + pyval" where
  "py_getitem d k = (case d k of None \<Rightarrow> Inl (KeyError k) | Some v \<Rightarrow> Inr v)"

subsection \<open>get\_current\_user\<close>

text \<open>
  \<^verbatim>\<open>
  async def get_current_user(authorization: str = Header(None)):
      if not authorization or not authorization.startswith("Bearer "):
          raise HTTPException(status_code=401, detail="Missing or invalid token")
      token = authorization.split(" ")[1]
      try:
          payload = jwt.decode(token, os.getenv("BETTER_AUTH_SECRET"), algorithms=["HS256"])
          return payload  # Contains user_id in "sub" claim
      except jwt.InvalidTokenError:
          raise HTTPException(status_code=401, detail="Invalid token")
  \<close>
  The header is \<open>None\<close> when absent; \<open>not authorization\<close> also holds for the empty string.
  The secret is what \<open>os.getenv\<close> returns (\<open>None\<close> when the variable is unset).
\<close>

fun get_current_user :: "jwt_decoder \<Rightarrow> string option \<Rightarrow> string option \<Rightarrow> exn + claims" where
  "get_current_user jwt_decode secret None =
     Inl (HTTPException 401 ''Missing or invalid token'')"
| "get_current_user jwt_decode secret (Some authorization) =
     (if authorization = [] \<or> \<not> startswith authorization ''Bearer ''
      then Inl (HTTPException 401 ''Missing or invalid token'')
      else (case py_index (split_sep CHR '' '' authorization) 1 of
              Inl e \<Rightarrow> Inl e
            | Inr token \<Rightarrow>
                (case jwt_decode token secret of
                   Inr payload \<Rightarrow> Inr payload
                 | Inl _ \<Rightarrow> Inl (HTTPException 401 ''Invalid token''))))"

subsection \<open>The ownership check of a route handler\<close>

text \<open>
  \<^verbatim>\<open>
  @router.post("/api/{user_id}/tasks")
  async def create_task(user_id: str, task: TaskCreate,
                        current_user: dict = Depends(get_current_user),
                        session: Session = Depends(get_session)):
      if current_user["id"] != user_id:
          raise HTTPException(status_code=403, detail="Forbidden")
      # Proceed with task creation...
  \<close>
  \<open>current_user["id"]\<close> raises \<open>KeyError\<close> when the payload has no entry \<open>id\<close>.
\<close>

definition check_owner :: "claims \<Rightarrow> string \<Rightarrow> exn + unit" where
  "check_owner current_user user_id =
     (case py_getitem current_user ''id'' of
        Inl e \<Rightarrow> Inl e
      | Inr v \<Rightarrow> if v \<noteq> PStr user_id then Inl (HTTPException 403 ''Forbidden'') else Inr ())"

text \<open>
  The gate of a request: the dependency, then the check.  It returns the payload the
  handler goes on with.
\<close>

definition ownership_gate ::
  "jwt_decoder \<Rightarrow> string option \<Rightarrow> string option \<Rightarrow> string \<Rightarrow> exn + claims" where
  "ownership_gate jwt_decode secret authorization user_id =
     (case get_current_user jwt_decode secret authorization of
        Inl e \<Rightarrow> Inl e
      | Inr current_user \<Rightarrow>
          (case check_owner current_user user_id of
             Inl e \<Rightarrow> Inl e
           | Inr _ \<Rightarrow> Inr current_user))"

text \<open>
  The outcome a client sees: the status code of an \<open>HTTPException\<close>; any other exception
  that leaves a handler is answered with status 500 (Internal Server Error).
\<close>

datatype outcome = Allow | Unauthenticated | Forbidden | ServerError

fun exn_status :: "exn \<Rightarrow> nat" where
  "exn_status (HTTPException s d) = s"
| "exn_status (KeyError k) = 500"
| "exn_status IndexError = 500"
| "exn_status (RequestValidationError fields) = 422"
| "exn_status IntegrityError = 500"

definition gate_outcome :: "exn + 'a \<Rightarrow> outcome" where
  "gate_outcome r =
     (case r of
        Inr _ \<Rightarrow> Allow
      | Inl e \<Rightarrow> if exn_status e = 401 then Unauthenticated
                else if exn_status e = 403 then Forbidden
                else ServerError)"

text \<open>The text between \<open>Bearer\<close> and the next space: what \<open>split(" ")[1]\<close> selects.\<close>

definition bearer_token :: "string \<Rightarrow> string" where
  "bearer_token authorization = takeWhile (\<lambda>c. c \<noteq> CHR '' '') (drop 7 authorization)"

section \<open>Backend: request schemas\<close>

text \<open>
  \<^verbatim>\<open>
  class TaskCreate(BaseModel):
      title: str = Field(..., min_length=1, max_length=255)
      description: Optional[str] = Field(None, max_length=2000)

  class TaskUpdate(BaseModel):
      title: str = Field(..., min_length=1, max_length=255)
      description: Optional[str] = Field(None, max_length=2000)
  \<close>
  A field of the request body is absent (\<open>None\<close>) or a value.  Validation collects the
  fields at fault; the request is refused when there is one.
\<close>

record TaskCreate =
  new_title :: string
  new_description :: "string option"

definition title_errors :: "pyval option \<Rightarrow> string list" where
  "title_errors v =
     (case v of
        None \<Rightarrow> [''title'']
      | Some (PInt i) \<Rightarrow> [''title'']
      | Some (PStr t) \<Rightarrow> if length t < 1 \<or> 255 < length t then [''title''] else [])"

definition description_errors :: "pyval option \<Rightarrow> string list" where
  "description_errors v =
     (case v of
        None \<Rightarrow> []
      | Some (PInt i) \<Rightarrow> [''description'']
      | Some (PStr d) \<Rightarrow> if 2000 < length d then [''description''] else [])"

definition validate_TaskCreate :: "pyval option \<Rightarrow> pyval option \<Rightarrow> exn + TaskCreate" where
  "validate_TaskCreate title_field description_field =
     (case title_errors title_field @ description_errors description_field of
        [] \<Rightarrow>
          (case title_field of
             Some (PStr t) \<Rightarrow>
               Inr \<lparr>new_title = t,
                    new_description =
                      (case description_field of Some (PStr d) \<Rightarrow> Some d | _ \<Rightarrow> None)\<rparr>
           | _ \<Rightarrow> Inl (RequestValidationError [''title'']))
      | e # es \<Rightarrow> Inl (RequestValidationError (e # es)))"

definition validate_TaskUpdate :: "pyval option \<Rightarrow> pyval option \<Rightarrow> exn + TaskCreate" where
  "validate_TaskUpdate title_field description_field =
     validate_TaskCreate title_field description_field"

section \<open>Backend: the tasks table and its operations\<close>

text \<open>
  The model \<open>Task\<close> of the schema document: \<open>id\<close> is the primary key, \<open>user_id\<close> the
  owner.  (The fields carry the prefix \<open>task\<close> where the plain name is taken.)
\<close>

record task =
  task_id :: string
  task_user_id :: string
  task_title :: string
  task_description :: "string option"
  task_completed :: bool
  created_at :: nat
  updated_at :: nat

text \<open>
  A session holds the rows of the table.  To speak about storage accesses it also
  records the statements that were executed: a \<open>select\<close> with its \<open>where\<close> clause (an
  optional \<open>Task.id\<close> and the \<open>Task.user_id\<close>), and the insert, update and delete of
  a \<open>Task\<close> object.
\<close>

datatype statement =
    SelectTasks "string option" string
  | InsertTask task
  | UpdateTask task
  | DeleteTask task

record session =
  rows :: "task list"
  statements :: "statement list"

definition execute :: "statement \<Rightarrow> session \<Rightarrow> session" where
  "execute q s = s\<lparr>statements := statements s @ [q]\<rparr>"



definition get_task :: "string \<Rightarrow> string \<Rightarrow> session \<Rightarrow> task option \<times> session" where
  "get_task user_id tid s =
     (find (\<lambda>t. task_id t = tid \<and> task_user_id t = user_id) (rows s),
      execute (SelectTasks (Some tid) user_id) s)"





subsection \<open>Route handlers\<close>









section \<open>Frontend: JavaScript values\<close>

text \<open>
  A JavaScript string is a sequence of 16-bit code units.  \<open>js\<close> writes a literal of
  the source.  A number is a double, kept as the rational it denotes; its arithmetic and
  its text are modelled below.
\<close>

type_synonym jsstring = "16 word list"

definition js :: "string \<Rightarrow> jsstring" where
  "js s = map (\<lambda>c. of_nat (of_char c)) s"

datatype json =
    JNull
  | JBool bool
  | JNum rat
  | JStr jsstring
  | JArr "json list"
  | JObj "(jsstring \<times> json) list"

datatype js_error = Error jsstring | TypeError | SyntaxError | InvalidCharacterError

text \<open>\<open>!!v\<close> for a JSON value and for a string that may be \<open>null\<close>.\<close>

fun truthy :: "json \<Rightarrow> bool" where
  "truthy JNull = False"
| "truthy (JBool b) = b"
| "truthy (JNum x) = (x \<noteq> 0)"
| "truthy (JStr s) = (s \<noteq> [])"
| "truthy (JArr xs) = True"
| "truthy (JObj ms) = True"

definition truthy_string :: "jsstring option \<Rightarrow> bool" where
  "truthy_string v = (case v of None \<Rightarrow> False | Some s \<Rightarrow> s \<noteq> [])"

subsection \<open>Number and string conversions of the platform\<close>

function show_nat :: "nat \<Rightarrow> string" where
  "show_nat n =
     (if n < 10 then [char_of (48 + n)]
      else show_nat (n div 10) @ [char_of (48 + n mod 10)])"
  by pat_completeness auto
termination
  by (relation "measure id") auto

declare show_nat.simps [simp del]

text \<open>
  A JavaScript number is an IEEE 754 double.  The finite doubles are rationals, and the
  model keeps a number as the rational it denotes: \<open>round_double\<close> is the rounding every
  arithmetic operation ends with (to the nearest double, ties to the even significand;
  53 bits, the smallest step is \<open>2^-1074\<close>), and \<open>x / y\<close> and \<open>x + y\<close> of the source are
  \<open>js_div\<close> and \<open>js_add\<close>.  The infinities, \<open>NaN\<close> and the sign of zero are not
  represented: a number that rounds to \<open>2^1024\<close> or beyond is outside the model (it is an
  infinity in JavaScript), and the operations of the source do not reach one from a time
  value.
\<close>

function bit_length :: "int \<Rightarrow> int" where
  "bit_length n = (if n \<le> 0 then 0 else 1 + bit_length (n div 2))"
  by pat_completeness auto
termination
  by (relation "measure nat") auto

function decimal_length :: "int \<Rightarrow> int" where
  "decimal_length n = (if n \<le> 0 then 0 else 1 + decimal_length (n div 10))"
  by pat_completeness auto
termination
  by (relation "measure nat") auto

function decimal :: "int \<Rightarrow> string" where
  "decimal n =
     (if n < 10 then [char_of (48 + nat n)]
      else decimal (n div 10) @ [char_of (48 + nat (n mod 10))])"
  by pat_completeness auto
termination
  by (relation "measure nat") auto

declare bit_length.simps [simp del] decimal_length.simps [simp del] decimal.simps [simp del]

definition pow_int :: "rat \<Rightarrow> int \<Rightarrow> rat" where
  "pow_int b i = (if 0 \<le> i then b ^ nat i else 1 / b ^ nat (- i))"

text \<open>
  For a positive \<open>a\<close>: the \<open>e\<close> with \<open>2^e \<le> a < 2^(e+1)\<close>, and the \<open>n\<close> with
  \<open>10^(n-1) \<le> a < 10^n\<close>.
\<close>

definition floor_log2 :: "rat \<Rightarrow> int" where
  "floor_log2 a = (if 1 \<le> a then bit_length \<lfloor>a\<rfloor> - 1 else - bit_length (\<lceil>1 / a\<rceil> - 1))"

definition decimal_exponent :: "rat \<Rightarrow> int" where
  "decimal_exponent a =
     (if 1 \<le> a then decimal_length \<lfloor>a\<rfloor> else 1 - decimal_length (\<lceil>1 / a\<rceil> - 1))"

definition round_half_even :: "rat \<Rightarrow> int" where
  "round_half_even m =
     (let f = \<lfloor>m\<rfloor>; r = m - of_int f
      in if r < 1 / 2 then f
         else if 1 / 2 < r then f + 1
         else if even f then f else f + 1)"

definition round_double :: "rat \<Rightarrow> rat" where
  "round_double x =
     (if x = 0 then 0
      else (let q = max (floor_log2 \<bar>x\<bar> - 52) (- 1074);
                n = round_half_even (\<bar>x\<bar> / pow_int 2 q)
            in (if x < 0 then - 1 else 1) * of_int n * pow_int 2 q))"


definition js_add :: "rat \<Rightarrow> rat \<Rightarrow> rat" where
  "js_add x y = round_double (x + y)"

text \<open>
  \<open>Number::toString\<close> of ECMAScript, which \<open>JSON.stringify\<close>, \<open>String\<close> and string
  concatenation use for a finite number: for a positive double \<open>x\<close>, integers \<open>n\<close>, \<open>k\<close>
  and \<open>s\<close> with \<open>k \<ge> 1\<close>, \<open>10^(k-1) \<le> s < 10^k\<close>, \<open>s * 10^(n-k)\<close> rounding to \<open>x\<close>, and \<open>k\<close>
  as small as possible; of several such \<open>s\<close> the one closest to \<open>x\<close>, the even one on a
  tie.  The digits of \<open>s\<close> are then laid out by the size of \<open>n\<close>: plain digits with zeros
  up to \<open>10^21\<close>, a decimal point, leading zeros down to \<open>10^-7\<close>, the exponent form
  elsewhere.

  \<open>choose_digits x n0 k\<close> is the choice among the numbers of \<open>k\<close> digits in the decade
  \<open>n0\<close> of \<open>x\<close>: the multiples of \<open>10^(n0-k)\<close> rounding to \<open>x\<close> are consecutive and \<open>x\<close> lies
  among them, so the closest one is the multiple just below \<open>x\<close> or the one just above.
  \<open>shortest_digits\<close> tries \<open>k = 1, 2, ...\<close>; seventeen digits identify every double, so the
  search ends there.
\<close>

definition choose_digits :: "rat \<Rightarrow> int \<Rightarrow> int \<Rightarrow> int option" where
  "choose_digits x n0 k =
     (let unit = pow_int 10 (n0 - k);
          lo = \<lfloor>x / unit\<rfloor>;
          hi = lo + 1;
          vlo = (round_double (of_int lo * unit) = x);
          vhi = (round_double (of_int hi * unit) = x);
          dl = x - of_int lo * unit;
          dh = of_int hi * unit - x
      in if vlo \<and> vhi then
           Some (if dl < dh then lo else if dh < dl then hi else if even lo then lo else hi)
         else if vlo then Some lo
         else if vhi then Some hi
         else None)"

function shortest_digits :: "rat \<Rightarrow> int \<Rightarrow> int \<Rightarrow> int \<times> int \<times> int" where
  "shortest_digits x n0 k =
     (case choose_digits x n0 k of
        Some c \<Rightarrow> if c = 10 ^ nat k then (10 ^ nat (k - 1), n0 + 1, k) else (c, n0, k)
      | None \<Rightarrow>
          if 17 \<le> k then (\<lfloor>x / pow_int 10 (n0 - k)\<rfloor>, n0, k)
          else shortest_digits x n0 (k + 1))"
  by pat_completeness auto
termination
  by (relation "measure (\<lambda>(x, n0, k). nat (17 - k))") auto

declare shortest_digits.simps [simp del]

definition zeros :: "int \<Rightarrow> string" where
  "zeros n = replicate (nat n) CHR ''0''"

definition positive_number_string :: "rat \<Rightarrow> string" where
  "positive_number_string x =
     (case shortest_digits x (decimal_exponent x) 1 of
        (s, n, k) \<Rightarrow>
          (let d = decimal s
           in if k \<le> n \<and> n \<le> 21 then d @ zeros (n - k)
              else if 0 < n \<and> n \<le> 21 then take (nat n) d @ ''.'' @ drop (nat n) d
              else if - 6 < n \<and> n \<le> 0 then ''0.'' @ zeros (- n) @ d
              else (if k = 1 then d else take 1 d @ ''.'' @ drop 1 d) @ ''e'' @
                   (if 0 \<le> n - 1 then ''+'' else ''-'') @ decimal \<bar>n - 1\<bar>))"

definition number_string :: "rat \<Rightarrow> string" where
  "number_string x =
     (if x = 0 then ''0''
      else if x < 0 then ''-'' @ positive_number_string (- x)
      else positive_number_string x)"

text \<open>
  The text of the number a \<open>JNum\<close> holds.  A number of the program is a double already;
  the rounding makes the text that of the nearest double for every other rational, as
  \<open>JSON.parse\<close> and a number literal do.
\<close>

definition number_text :: "rat \<Rightarrow> jsstring" where
  "number_text x = js (number_string (round_double x))"

text \<open>Digits \<open>0-9a-z\<close>, for hexadecimal escapes and for \<open>toString(36)\<close>.\<close>

definition digit_char :: "nat \<Rightarrow> 16 word" where
  "digit_char d = (if d < 10 then of_nat (48 + d) else of_nat (87 + d))"

definition unicode_escape :: "16 word \<Rightarrow> jsstring" where
  "unicode_escape u =
     [0x5C, 0x75, digit_char (unat u div 4096), digit_char (unat u div 256 mod 16),
      digit_char (unat u div 16 mod 16), digit_char (unat u mod 16)]"

definition is_high_surrogate :: "16 word \<Rightarrow> bool" where
  "is_high_surrogate u = (0xD800 \<le> u \<and> u \<le> 0xDBFF)"

definition is_low_surrogate :: "16 word \<Rightarrow> bool" where
  "is_low_surrogate u = (0xDC00 \<le> u \<and> u \<le> 0xDFFF)"

text \<open>
  \<open>JSON.stringify\<close> of a string: the quote, the backslash and control characters are
  escaped, a surrogate without its partner is written as a \<open>\u\<close> escape, every other
  code unit is copied.
\<close>

definition quote_unit :: "16 word \<Rightarrow> jsstring" where
  "quote_unit u =
     (if u = 0x08 then [0x5C, 0x62]
      else if u = 0x09 then [0x5C, 0x74]
      else if u = 0x0A then [0x5C, 0x6E]
      else if u = 0x0C then [0x5C, 0x66]
      else if u = 0x0D then [0x5C, 0x72]
      else if u = 0x22 then [0x5C, 0x22]
      else if u = 0x5C then [0x5C, 0x5C]
      else if u < 0x20 then unicode_escape u
      else [u])"

fun quote_units :: "jsstring \<Rightarrow> jsstring" where
  "quote_units [] = []"
| "quote_units [u] =
     (if is_high_surrogate u \<or> is_low_surrogate u then unicode_escape u else quote_unit u)"
| "quote_units (u # v # vs) =
     (if is_high_surrogate u then
        (if is_low_surrogate v then u # v # quote_units vs
         else unicode_escape u @ quote_units (v # vs))
      else if is_low_surrogate u then unicode_escape u @ quote_units (v # vs)
      else quote_unit u @ quote_units (v # vs))"

definition QuoteJSONString :: "jsstring \<Rightarrow> jsstring" where
  "QuoteJSONString s = [0x22] @ quote_units s @ [0x22]"

fun intersperse :: "'a list \<Rightarrow> 'a list list \<Rightarrow> 'a list" where
  "intersperse sep [] = []"
| "intersperse sep [x] = x"
| "intersperse sep (x # y # ys) = x @ sep @ intersperse sep (y # ys)"

fun JSON_stringify :: "json \<Rightarrow> jsstring" where
  "JSON_stringify JNull = js ''null''"
| "JSON_stringify (JBool b) = (if b then js ''true'' else js ''false'')"
| "JSON_stringify (JNum x) = number_text x"
| "JSON_stringify (JStr s) = QuoteJSONString s"
| "JSON_stringify (JArr xs) = js ''['' @ intersperse (js '','') (map JSON_stringify xs) @ js '']''"
| "JSON_stringify (JObj ms) =
     js ''{'' @ intersperse (js '','')
                 (map (\<lambda>(k, v). QuoteJSONString k @ js '':'' @ JSON_stringify v) ms) @ js ''}''"

text \<open>
  \<open>String(v)\<close>, the text an \<open>Error\<close> gets when it is built from a value that is not a
  string: an array joins its elements with commas (\<open>null\<close> gives the empty text), an
  object gives \<open>[object Object]\<close>.
\<close>

fun js_to_string :: "json \<Rightarrow> jsstring" where
  "js_to_string JNull = js ''null''"
| "js_to_string (JBool b) = (if b then js ''true'' else js ''false'')"
| "js_to_string (JNum x) = number_text x"
| "js_to_string (JStr s) = s"
| "js_to_string (JArr xs) =
     intersperse (js '','') (map (\<lambda>x. if x = JNull then [] else js_to_string x) xs)"
| "js_to_string (JObj ms) = js ''[object Object]''"

text \<open>
  A property read \<open>v.key\<close>: \<open>TypeError\<close> on \<open>null\<close>, the member of an object (the last one
  with that key), \<open>undefined\<close> (here \<open>None\<close>) otherwise.
\<close>

fun get_prop :: "json \<Rightarrow> jsstring \<Rightarrow> js_error + json option" where
  "get_prop JNull k = Inl TypeError"
| "get_prop (JObj ms) k = Inr (map_of (rev ms) k)"
| "get_prop v k = Inr None"

subsection \<open>btoa\<close>






section \<open>Frontend: lib/auth.js\<close>

text \<open>
  The state the module works on: whether \<open>window\<close> is defined (it is not when the code
  runs on the server), the entries of \<open>localStorage\<close>, \<open>window.location.href\<close>, and what
  \<open>console.error\<close> has printed.
\<close>

record browser =
  window_defined :: bool
  localStorage :: "jsstring \<rightharpoonup> jsstring"
  location_href :: jsstring
  console_errors :: "js_error list"

definition AUTH_TOKEN_KEY :: jsstring where
  "AUTH_TOKEN_KEY = js ''auth_token''"

definition AUTH_USER_KEY :: jsstring where
  "AUTH_USER_KEY = js ''auth_user''"

text \<open>
  \<^verbatim>\<open>
  export function getUser() {
    if (typeof window === 'undefined') return null;
    const userStr = localStorage.getItem(AUTH_USER_KEY);
    if (!userStr) return null;
    try { return JSON.parse(userStr); } catch { return null; }
  }
  \<close>
  \<open>JSON.parse\<close> is a parameter: \<open>None\<close> when it throws.  The result \<open>null\<close> is \<open>JNull\<close>.
\<close>

definition getUser :: "(jsstring \<Rightarrow> json option) \<Rightarrow> browser \<Rightarrow> json" where
  "getUser JSON_parse st =
     (if \<not> window_defined st then JNull
      else (case localStorage st AUTH_USER_KEY of
              None \<Rightarrow> JNull
            | Some userStr \<Rightarrow>
                if userStr = [] then JNull
                else (case JSON_parse userStr of
                        Some v \<Rightarrow> v
                      | None \<Rightarrow> JNull)))"

text \<open>
  \<^verbatim>\<open>
  export function getToken() {
    if (typeof window === 'undefined') return null;
    return localStorage.getItem(AUTH_TOKEN_KEY);
  }
  \<close>
  The result \<open>null\<close> is \<open>None\<close>.
\<close>

definition getToken :: "browser \<Rightarrow> jsstring option" where
  "getToken st = (if \<not> window_defined st then None else localStorage st AUTH_TOKEN_KEY)"

text \<open>
  \<^verbatim>\<open>
  export function setAuth(user, token) {
    if (typeof window === 'undefined') return;
    localStorage.setItem(AUTH_USER_KEY, JSON.stringify(user));
    localStorage.setItem(AUTH_TOKEN_KEY, token);
  }
  export function clearAuth() {
    if (typeof window === 'undefined') return;
    localStorage.removeItem(AUTH_USER_KEY);
    localStorage.removeItem(AUTH_TOKEN_KEY);
  }
  \<close>
\<close>

definition setAuth :: "json \<Rightarrow> jsstring \<Rightarrow> browser \<Rightarrow> browser" where
  "setAuth user token st =
     (if \<not> window_defined st then st
      else st\<lparr>localStorage :=
                (localStorage st)(AUTH_USER_KEY \<mapsto> JSON_stringify user, AUTH_TOKEN_KEY \<mapsto> token)\<rparr>)"

definition clearAuth :: "browser \<Rightarrow> browser" where
  "clearAuth st =
     (if \<not> window_defined st then st
      else st\<lparr>localStorage := (localStorage st)(AUTH_USER_KEY := None, AUTH_TOKEN_KEY := None)\<rparr>)"

text \<open>
  \<^verbatim>\<open>
  export function logout() {
    clearAuth();
    if (typeof window !== 'undefined') { window.location.href = '/'; }
  }
  export function isAuthenticated() { return !!getToken() && !!getUser(); }
  \<close>
\<close>

definition logout :: "browser \<Rightarrow> browser" where
  "logout st =
     (let st1 = clearAuth st
      in if window_defined st1 then st1\<lparr>location_href := js ''/''\<rparr> else st1)"

definition isAuthenticated :: "(jsstring \<Rightarrow> json option) \<Rightarrow> browser \<Rightarrow> bool" where
  "isAuthenticated JSON_parse st =
     (truthy_string (getToken st) \<and> truthy (getUser JSON_parse st))"

subsection \<open>login and signup\<close>








section \<open>Frontend: lib/api.js\<close>

record response =
  status :: nat
  json_body :: "json option"

definition ok :: "response \<Rightarrow> bool" where
  "ok r = (200 \<le> status r \<and> status r \<le> 299)"

record options =
  opt_method :: "jsstring option"
  opt_body :: "jsstring option"
  opt_headers :: "(jsstring \<times> jsstring) list"

record request =
  url :: jsstring
  req_method :: "jsstring option"
  req_body :: "jsstring option"
  req_headers :: "jsstring \<rightharpoonup> jsstring"

definition no_options :: options where
  "no_options = \<lparr>opt_method = None, opt_body = None, opt_headers = []\<rparr>"

text \<open>
  The request \<open>apiRequest\<close> hands to \<open>fetch\<close>: the headers start from the content type,
  take over the caller's headers, and get \<open>Authorization\<close> when the stored token is truthy.
\<close>

definition build_request :: "jsstring \<Rightarrow> jsstring \<Rightarrow> options \<Rightarrow> browser \<Rightarrow> request" where
  "build_request API_URL endpoint opts st =
     (let headers = map_of (rev ((js ''Content-Type'', js ''application/json'') # opt_headers opts))
      in \<lparr>url = API_URL @ endpoint,
          req_method = opt_method opts,
          req_body = opt_body opts,
          req_headers =
            (case getToken st of
               None \<Rightarrow> headers
             | Some token \<Rightarrow>
                 if token \<noteq> [] then headers(js ''Authorization'' \<mapsto> js ''Bearer '' @ token)
                 else headers)\<rparr>)"

text \<open>\<open>errorData.detail || fallback\<close>, as the message of the \<open>Error\<close>.\<close>

definition detail_or :: "json option \<Rightarrow> jsstring \<Rightarrow> jsstring" where
  "detail_or d fallback =
     (case d of
        None \<Rightarrow> fallback
      | Some v \<Rightarrow> if truthy v then js_to_string v else fallback)"

text \<open>
  \<open>apiRequest\<close>, status by status in the order of the source.  \<open>fetch\<close> is a parameter:
  it rejects (\<open>Inl\<close>) or resolves with a response, whose \<open>json()\<close> gives the parsed body
  or rejects (\<open>json_body = None\<close>, a \<open>SyntaxError\<close>).  Whatever is thrown inside the
  \<open>try\<close> is printed with \<open>console.error\<close> and thrown again.
\<close>

definition handle_response :: "response \<Rightarrow> browser \<Rightarrow> (js_error + json) \<times> browser" where
  "handle_response r st =
     (if status r = 401 then
        (Inl (Error (js ''Unauthorized'')),
         if window_defined st
         then st\<lparr>localStorage := (localStorage st)(js ''auth_token'' := None, js ''auth_user'' := None),
                 location_href := js ''/login''\<rparr>
         else st)
      else if status r = 403 then (Inl (Error (js ''Access denied'')), st)
      else if status r = 404 then (Inl (Error (js ''Resource not found'')), st)
      else if status r = 422 then
        (case json_body r of
           None \<Rightarrow> (Inl SyntaxError, st)
         | Some errorData \<Rightarrow>
             (case get_prop errorData (js ''detail'') of
                Inl e \<Rightarrow> (Inl e, st)
              | Inr d \<Rightarrow> (Inl (Error (detail_or d (js ''Validation error''))), st)))
      else if status r = 204 then (Inr JNull, st)
      else if \<not> ok r then
        (let errorData = (case json_body r of None \<Rightarrow> JObj [] | Some v \<Rightarrow> v)
         in case get_prop errorData (js ''detail'') of
              Inl e \<Rightarrow> (Inl e, st)
            | Inr d \<Rightarrow>
                (Inl (Error (detail_or d (js ''Request failed with status '' @ js (show_nat (status r))))),
                 st))
      else (case json_body r of
              None \<Rightarrow> (Inl SyntaxError, st)
            | Some v \<Rightarrow> (Inr v, st)))"

definition apiRequest ::
  "jsstring \<Rightarrow> (request \<Rightarrow> js_error + response) \<Rightarrow> jsstring \<Rightarrow> options \<Rightarrow> browser
     \<Rightarrow> (js_error + json) \<times> browser" where
  "apiRequest API_URL fetch endpoint opts st =
     (case (case fetch (build_request API_URL endpoint opts st) of
              Inl e \<Rightarrow> (Inl e, st)
            | Inr r \<Rightarrow> handle_response r st) of
        (Inl error, st') \<Rightarrow> (Inl error, st'\<lparr>console_errors := console_errors st' @ [error]\<rparr>)
      | (Inr v, st') \<Rightarrow> (Inr v, st'))"

subsection \<open>tasksAPI\<close>















section \<open>Frontend: components/TodoForm.js\<close>

text \<open>
  \<open>String.prototype.trim\<close> removes white space and line terminators at both ends.
\<close>

definition is_js_space :: "16 word \<Rightarrow> bool" where
  "is_js_space u =
     (u \<in> set [0x09, 0x0A, 0x0B, 0x0C, 0x0D, 0x20, 0xA0, 0x1680, 0x2028, 0x2029, 0x202F,
               0x205F, 0x3000, 0xFEFF]
      \<or> (0x2000 \<le> u \<and> u \<le> 0x200A))"

definition trim :: "jsstring \<Rightarrow> jsstring" where
  "trim s = rev (dropWhile is_js_space (rev (dropWhile is_js_space s)))"

text \<open>
  \<^verbatim>\<open>
  const handleSubmit = async (e) => {
    e.preventDefault();
    setError('');
    if (!title.trim()) {
      setError('Title is required');
      return;
    }
    try {
      await onSubmit({ title, description });
    } catch (err) {
      setError(err.message || 'Failed to save task');
    }
  };
  \<close>
  The state of the form is the three \<open>useState\<close> cells; \<open>error\<close> holds whatever the
  handler puts there.  \<open>onSubmit\<close> is a parameter: it resolves, or rejects with a value
  (a throw inside it is the same to the \<open>try\<close>).  The \<open>catch\<close> block reads the \<open>message\<close>
  of that value.  On \<open>null\<close> and \<open>undefined\<close> the read itself throws a \<open>TypeError\<close>,
  which nothing catches: the promise of \<open>handleSubmit\<close> rejects, and the error cell
  keeps the \<open>''\<close> it was reset to.  Every other value has a \<open>message\<close>, \<open>None\<close> when
  it is \<open>undefined\<close>.  The model returns how the promise of the handler ends, the new
  state, and the list of calls of \<open>onSubmit\<close> that were made.
\<close>

record form =
  title :: jsstring
  description :: jsstring
  error :: json

datatype rejection = Nullish | Thrown "json option"

definition handleSubmit ::
  "(jsstring \<times> jsstring \<Rightarrow> rejection + unit) \<Rightarrow> form
     \<Rightarrow> (js_error + unit) \<times> form \<times> (jsstring \<times> jsstring) list" where
  "handleSubmit onSubmit f =
     (let f1 = f\<lparr>error := JStr []\<rparr>
      in if trim (title f) = [] then (Inr (), f1\<lparr>error := JStr (js ''Title is required'')\<rparr>, [])
         else (case onSubmit (title f, description f) of
                 Inr _ \<Rightarrow> (Inr (), f1, [(title f, description f)])
               | Inl Nullish \<Rightarrow> (Inl TypeError, f1, [(title f, description f)])
               | Inl (Thrown message) \<Rightarrow>
                   (Inr (),
                    f1\<lparr>error := (case message of
                                    None \<Rightarrow> JStr (js ''Failed to save task'')
                                  | Some m \<Rightarrow> if truthy m then m
                                              else JStr (js ''Failed to save task''))\<rparr>,
                    [(title f, description f)])))"

section \<open>Sample inputs\<close>

text \<open>
  Concrete verifiers, states and tables on which the functions are run below.
\<close>

text \<open>
  For evaluating the gate on concrete requests, a verifier in the role of \<open>create_jwt\<close>
  of the backend tests: with the secret \<open>s3cret\<close> the token \<open>good-u1\<close> decodes to the
  payload the architecture document gives for identity \<open>u1\<close>
  (\<open>{"sub": ..., "email": ..., "iat": ..., "exp": ...}\<close>), \<open>withid-u1\<close> to a payload that
  also carries the identity under \<open>id\<close>, \<open>expired-u1\<close> is expired, \<open>forged-u1\<close> has a
  bad signature, and everything else is malformed.
\<close>

definition documented_payload :: "string \<Rightarrow> claims" where
  "documented_payload uid =
     [''sub'' \<mapsto> PStr uid, ''email'' \<mapsto> PStr (uid @ ''@example.com''),
      ''iat'' \<mapsto> PInt 1700000000, ''exp'' \<mapsto> PInt 1700086400]"

definition sample_decode :: jwt_decoder where
  "sample_decode token secret =
     (if secret \<noteq> Some ''s3cret'' then Inl InvalidSignatureError
      else if token = ''good-u1'' then Inr (documented_payload ''u1'')
      else if token = ''withid-u1'' then Inr ((documented_payload ''u1'')(''id'' \<mapsto> PStr ''u1''))
      else if token = ''expired-u1'' then Inl ExpiredSignatureError
      else if token = ''forged-u1'' then Inl InvalidSignatureError
      else Inl DecodeError)"


text \<open>
  A browser with nothing stored, and a parser that knows the text of the empty object
  only; both serve to run the functions on concrete inputs.
\<close>

definition fresh_browser :: browser where
  "fresh_browser =
     \<lparr>window_defined = True, localStorage = Map.empty, location_href = js ''/login'',
      console_errors = []\<rparr>"

definition sample_parse :: "jsstring \<Rightarrow> json option" where
  "sample_parse s = (if s = js ''{}'' then Some (JObj []) else None)"

text \<open>
  A \<open>fetch\<close> that answers every request with the given status and parsed body.
\<close>

definition sample_fetch :: "nat \<Rightarrow> json option \<Rightarrow> request \<Rightarrow> js_error + response" where
  "sample_fetch code body req = Inr \<lparr>status = code, json_body = body\<rparr>"


section \<open>The gate: facts\<close>

subsection \<open>Facts about the string operations\<close>

lemma split_sep_not_Nil: "split_sep sep s \<noteq> []"
  by (induction s) (auto split: list.splits)

lemma split_sep_hd: "hd (split_sep sep s) = takeWhile (\<lambda>c. c \<noteq> sep) s"
proof (induction s)
  case Nil
  show ?case by simp
next
  case (Cons c cs)
  then show ?case
    using split_sep_not_Nil [of sep cs] by (auto split: list.splits)
qed

lemma split_sep_no_sep:
  "sep \<notin> set w \<Longrightarrow> split_sep sep (w @ sep # rest) = w # split_sep sep rest"
proof (induction w)
  case Nil
  show ?case by simp
next
  case (Cons c w)
  then show ?case by auto
qed

lemma startswith_Bearer_decomp:
  "startswith a ''Bearer '' \<Longrightarrow> a = ''Bearer'' @ CHR '' '' # drop 7 a"
proof -
  assume "startswith a ''Bearer ''"
  then have "take 7 a = ''Bearer ''"
    by (simp add: startswith_def eval_nat_numeral)
  then have "a = ''Bearer '' @ drop 7 a"
    by (metis append_take_drop_id)
  then show ?thesis by simp
qed

lemma split_Bearer:
  assumes "startswith a ''Bearer ''"
  shows "py_index (split_sep CHR '' '' a) 1 = Inr (bearer_token a)"
proof -
  have a: "a = ''Bearer'' @ CHR '' '' # drop 7 a"
    using assms by (rule startswith_Bearer_decomp)
  have "split_sep CHR '' '' (''Bearer'' @ CHR '' '' # drop 7 a)
          = ''Bearer'' # split_sep CHR '' '' (drop 7 a)"
    by (rule split_sep_no_sep) simp
  with a have s: "split_sep CHR '' '' a = ''Bearer'' # split_sep CHR '' '' (drop 7 a)"
    by simp
  obtain w ws where r: "split_sep CHR '' '' (drop 7 a) = w # ws"
    using split_sep_not_Nil [of "CHR '' ''" "drop 7 a"] by (cases "split_sep CHR '' '' (drop 7 a)") auto
  have "w = bearer_token a"
    using split_sep_hd [of "CHR '' ''" "drop 7 a"] r by (simp add: bearer_token_def)
  with s r show ?thesis
    by (simp add: py_index_def)
qed

lemma get_current_user_Bearer:
  assumes "startswith a ''Bearer ''"
  shows "get_current_user jwt_decode secret (Some a) =
           (case jwt_decode (bearer_token a) secret of
              Inr payload \<Rightarrow> Inr payload
            | Inl _ \<Rightarrow> Inl (HTTPException 401 ''Invalid token''))"
proof -
  have "a \<noteq> []"
    using assms by (auto simp: startswith_def)
  then show ?thesis
    using assms split_Bearer [OF assms] by simp
qed

lemma get_current_user_not_Bearer:
  "\<not> startswith a ''Bearer '' \<Longrightarrow>
     get_current_user jwt_decode secret (Some a) = Inl (HTTPException 401 ''Missing or invalid token'')"
  by simp

lemma get_current_user_None:
  "get_current_user jwt_decode secret None = Inl (HTTPException 401 ''Missing or invalid token'')"
  by simp

declare get_current_user.simps [simp del]

subsection \<open>What the gate decides\<close>

lemma get_current_user_rejects_401:
  "get_current_user jwt_decode secret authorization = Inl e \<Longrightarrow>
     e = HTTPException 401 ''Missing or invalid token'' \<or> e = HTTPException 401 ''Invalid token''"
proof (cases authorization)
  case None
  assume "get_current_user jwt_decode secret authorization = Inl e"
  with None show ?thesis by (simp add: get_current_user_None)
next
  case (Some a)
  assume r: "get_current_user jwt_decode secret authorization = Inl e"
  show ?thesis
  proof (cases "startswith a ''Bearer ''")
    case True
    with r Some show ?thesis
      by (auto simp: get_current_user_Bearer split: sum.splits)
  next
    case False
    with r Some show ?thesis by (simp add: get_current_user_not_Bearer)
  qed
qed

lemma get_current_user_returns:
  "get_current_user jwt_decode secret authorization = Inr payload \<Longrightarrow>
     \<exists>a. authorization = Some a \<and> startswith a ''Bearer '' \<and>
         jwt_decode (bearer_token a) secret = Inr payload"
proof (cases authorization)
  case None
  assume "get_current_user jwt_decode secret authorization = Inr payload"
  with None show ?thesis by (simp add: get_current_user_None)
next
  case (Some a)
  assume r: "get_current_user jwt_decode secret authorization = Inr payload"
  show ?thesis
  proof (cases "startswith a ''Bearer ''")
    case True
    with r Some show ?thesis
      by (auto simp: get_current_user_Bearer split: sum.splits)
  next
    case False
    with r Some show ?thesis by (simp add: get_current_user_not_Bearer)
  qed
qed

lemma check_owner_cases:
  "check_owner current_user user_id =
     (case current_user ''id'' of
        None \<Rightarrow> Inl (KeyError ''id'')
      | Some v \<Rightarrow> if v = PStr user_id then Inr () else Inl (HTTPException 403 ''Forbidden''))"
  by (simp add: check_owner_def py_getitem_def split: option.splits)

lemma ownership_gate_valid:
  assumes "startswith a ''Bearer ''"
    and "jwt_decode (bearer_token a) secret = Inr payload"
  shows "ownership_gate jwt_decode secret (Some a) user_id =
           (case payload ''id'' of
              None \<Rightarrow> Inl (KeyError ''id'')
            | Some v \<Rightarrow> if v = PStr user_id then Inr payload
                        else Inl (HTTPException 403 ''Forbidden''))"
  using assms
  by (simp add: ownership_gate_def get_current_user_Bearer check_owner_cases split: option.splits)

lemma ownership_gate_with_id:
  assumes "startswith a ''Bearer ''"
    and "jwt_decode (bearer_token a) secret = Inr payload"
    and "payload ''id'' = Some v"
  shows "ownership_gate jwt_decode secret (Some a) user_id =
           (if v = PStr user_id then Inr payload else Inl (HTTPException 403 ''Forbidden''))"
  using assms(3) by (simp add: ownership_gate_valid [where jwt_decode = jwt_decode, OF assms(1,2)])

lemma ownership_gate_without_id:
  assumes "startswith a ''Bearer ''"
    and "jwt_decode (bearer_token a) secret = Inr payload"
    and "payload ''id'' = None"
  shows "ownership_gate jwt_decode secret (Some a) user_id = Inl (KeyError ''id'')"
  using assms(3) by (simp add: ownership_gate_valid [where jwt_decode = jwt_decode, OF assms(1,2)])


lemma startswith_Bearer_literal: "startswith (''Bearer '' @ t) ''Bearer ''"
  by (simp add: startswith_def)

lemma bearer_token_literal:
  "CHR '' '' \<notin> set t \<Longrightarrow> bearer_token (''Bearer '' @ t) = t"
  by (auto simp: bearer_token_def)

section \<open>Claims about the gate\<close>

text \<open>
  C1.  A request with a valid credential whose authenticated identity differs from the
  path identity is to be rejected with 403.  The handler does so when the payload has an
  entry \<open>id\<close> that differs from the path identity (\<open>ownership_gate_with_id\<close>).  But the
  credential that the repository documents carries the identity under \<open>sub\<close> and has no
  entry \<open>id\<close> (the comment in \<open>get_current_user\<close> says so, too), while the route handler
  reads \<open>current_user["id"]\<close>.  On the request with the valid token of \<open>u1\<close> and the
  path identity \<open>u2\<close> the handler therefore raises \<open>KeyError\<close>: the request ends with a
  server error, neither Forbidden nor Unauthenticated.
\<close>

theorem gate_documented_token_other_path:
  "ownership_gate sample_decode (Some ''s3cret'') (Some ''Bearer good-u1'') ''u2''
     = Inl (KeyError ''id'') \<and>
   gate_outcome (ownership_gate sample_decode (Some ''s3cret'') (Some ''Bearer good-u1'') ''u2'')
     = ServerError"
proof -
  have s: "startswith ''Bearer good-u1'' ''Bearer ''"
    by (simp add: startswith_def)
  have t: "bearer_token ''Bearer good-u1'' = ''good-u1''"
    by (simp add: bearer_token_def)
  have d: "sample_decode (bearer_token ''Bearer good-u1'') (Some ''s3cret'')
             = Inr (documented_payload ''u1'')"
    by (simp add: t sample_decode_def)
  have g: "ownership_gate sample_decode (Some ''s3cret'') (Some ''Bearer good-u1'') ''u2''
             = Inl (KeyError ''id'')"
    by (simp add: ownership_gate_valid [where jwt_decode = sample_decode, OF s d] documented_payload_def)
  show ?thesis
    by (simp add: g gate_outcome_def)
qed

text \<open>
  C2.  A request without a credential (no header, an empty header, a header that does not
  start with \<open>Bearer\<close> and a space), or with a credential that fails verification
  (whatever the failure), is rejected with status 401: the outcome is Unauthenticated and
  not Forbidden.
\<close>

theorem gate_unauthenticated:
  assumes "authorization = None \<or> authorization = Some [] \<or>
           (\<exists>a. authorization = Some a \<and> \<not> startswith a ''Bearer '') \<or>
           (\<exists>a e. authorization = Some a \<and> startswith a ''Bearer '' \<and>
                  jwt_decode (bearer_token a) secret = Inl e)"
  shows "(\<exists>d. ownership_gate jwt_decode secret authorization user_id = Inl (HTTPException 401 d)) \<and>
         gate_outcome (ownership_gate jwt_decode secret authorization user_id) = Unauthenticated \<and>
         gate_outcome (ownership_gate jwt_decode secret authorization user_id) \<noteq> Forbidden"
proof -
  have "\<exists>d. get_current_user jwt_decode secret authorization = Inl (HTTPException 401 d)"
    using assms
  proof (elim disjE exE conjE)
    assume "authorization = None"
    then show ?thesis by (simp add: get_current_user_None)
  next
    assume "authorization = Some []"
    then show ?thesis by (simp add: get_current_user_not_Bearer startswith_def)
  next
    fix a assume "authorization = Some a" "\<not> startswith a ''Bearer ''"
    then show ?thesis by (simp add: get_current_user_not_Bearer)
  next
    fix a e
    assume "authorization = Some a" "startswith a ''Bearer ''"
      "jwt_decode (bearer_token a) secret = Inl e"
    then show ?thesis by (simp add: get_current_user_Bearer)
  qed
  then obtain d where "get_current_user jwt_decode secret authorization = Inl (HTTPException 401 d)"
    by blast
  then have "ownership_gate jwt_decode secret authorization user_id = Inl (HTTPException 401 d)"
    by (simp add: ownership_gate_def)
  then show ?thesis
    by (simp add: gate_outcome_def)
qed

theorem gate_unauthenticated_witness:
  "gate_outcome (ownership_gate sample_decode (Some ''s3cret'') (Some ''Bearer expired-u1'') ''u1'')
     = Unauthenticated \<and>
   gate_outcome (ownership_gate sample_decode (Some ''s3cret'') None ''u1'') = Unauthenticated"
proof -
  have s: "startswith ''Bearer expired-u1'' ''Bearer ''"
    by (simp add: startswith_def)
  have d: "sample_decode (bearer_token ''Bearer expired-u1'') (Some ''s3cret'')
             = Inl ExpiredSignatureError"
    by (simp add: bearer_token_def sample_decode_def)
  have h1: "Some ''Bearer expired-u1'' = None \<or> Some ''Bearer expired-u1'' = Some [] \<or>
           (\<exists>a. Some ''Bearer expired-u1'' = Some a \<and> \<not> startswith a ''Bearer '') \<or>
           (\<exists>a e. Some ''Bearer expired-u1'' = Some a \<and> startswith a ''Bearer '' \<and>
                  sample_decode (bearer_token a) (Some ''s3cret'') = Inl e)"
    using s d by blast
  have h2: "(None :: string option) = None \<or> None = Some [] \<or>
           (\<exists>a. None = Some a \<and> \<not> startswith a ''Bearer '') \<or>
           (\<exists>a e. None = Some a \<and> startswith a ''Bearer '' \<and>
                  sample_decode (bearer_token a) (Some ''s3cret'') = Inl e)"
    by simp
  show ?thesis
    using gate_unauthenticated [where jwt_decode = sample_decode and user_id = "''u1''", OF h1]
      gate_unauthenticated [where jwt_decode = sample_decode and user_id = "''u1''", OF h2]
    by simp
qed

text \<open>
  C4.  A request with a valid credential whose authenticated identity equals the path
  identity is to be allowed.  The handler allows it when the payload has the path
  identity under \<open>id\<close> (\<open>ownership_gate_with_id\<close>).  On the request with the valid
  documented token of \<open>u1\<close> and the path identity \<open>u1\<close> the handler raises \<open>KeyError\<close>
  instead: it reads the identity under \<open>id\<close>, the credential carries it under \<open>sub\<close>
  (\<open>ownership_gate_without_id\<close>: so it is for every path identity).
\<close>

theorem gate_documented_token_own_path:
  "ownership_gate sample_decode (Some ''s3cret'') (Some ''Bearer good-u1'') ''u1''
     = Inl (KeyError ''id'') \<and>
   gate_outcome (ownership_gate sample_decode (Some ''s3cret'') (Some ''Bearer good-u1'') ''u1'')
     \<noteq> Allow"
proof -
  have s: "startswith ''Bearer good-u1'' ''Bearer ''"
    by (simp add: startswith_def)
  have d: "sample_decode (bearer_token ''Bearer good-u1'') (Some ''s3cret'')
             = Inr (documented_payload ''u1'')"
    by (simp add: bearer_token_def sample_decode_def)
  have g: "ownership_gate sample_decode (Some ''s3cret'') (Some ''Bearer good-u1'') ''u1''
             = Inl (KeyError ''id'')"
    by (simp add: ownership_gate_valid [where jwt_decode = sample_decode, OF s d] documented_payload_def)
  show ?thesis
    by (simp add: g gate_outcome_def)
qed

lemma gate_verification_failure:
  assumes "startswith a ''Bearer ''"
    and "jwt_decode (bearer_token a) secret = Inl e"
  shows "ownership_gate jwt_decode secret (Some a) user_id
           = Inl (HTTPException 401 ''Invalid token'')"
  using assms by (simp add: ownership_gate_def get_current_user_Bearer)

text \<open>
  C5.  A request the gate does not allow is to end as Unauthenticated or as Forbidden,
  and as nothing else.  The failures of verification do collapse: two credentials that
  fail verification, for whatever reasons (expired, bad signature, malformed), are answered
  with the very same exception, and its outcome is the outcome of a request without a
  credential.  But there is a third way out of the gate.  When the credential verifies
  and its payload has no entry \<open>id\<close>, as the payload the repository documents has not,
  the handler raises \<open>KeyError\<close> on \<open>current_user["id"]\<close>, whatever the path identity:
  the request is not allowed, and its outcome is a server error, neither Unauthenticated
  nor Forbidden.
\<close>

theorem gate_third_outcome:
  "(startswith a ''Bearer '' \<and> jwt_decode (bearer_token a) secret = Inr current_user \<and>
    current_user ''id'' = None
      \<longrightarrow> ownership_gate jwt_decode secret (Some a) user_id = Inl (KeyError ''id'') \<and>
          gate_outcome (ownership_gate jwt_decode secret (Some a) user_id) = ServerError) \<and>
   (startswith a1 ''Bearer '' \<and> jwt_decode (bearer_token a1) secret = Inl e1 \<and>
    startswith a2 ''Bearer '' \<and> jwt_decode (bearer_token a2) secret = Inl e2
      \<longrightarrow> ownership_gate jwt_decode secret (Some a1) user_id
            = ownership_gate jwt_decode secret (Some a2) user_id' \<and>
          gate_outcome (ownership_gate jwt_decode secret (Some a1) user_id)
            = gate_outcome (ownership_gate jwt_decode secret None user_id) \<and>
          gate_outcome (ownership_gate jwt_decode secret (Some a1) user_id) = Unauthenticated)"
proof (intro conjI impI)
  assume h: "startswith a ''Bearer '' \<and> jwt_decode (bearer_token a) secret = Inr current_user \<and>
    current_user ''id'' = None"
  then have s: "startswith a ''Bearer ''"
    and d: "jwt_decode (bearer_token a) secret = Inr current_user"
    and n: "current_user ''id'' = None"
    by simp_all
  show g: "ownership_gate jwt_decode secret (Some a) user_id = Inl (KeyError ''id'')"
    using n by (simp add: ownership_gate_valid [where jwt_decode = jwt_decode, OF s d])
  show "gate_outcome (ownership_gate jwt_decode secret (Some a) user_id) = ServerError"
    by (simp add: g gate_outcome_def)
next
  assume h: "startswith a1 ''Bearer '' \<and> jwt_decode (bearer_token a1) secret = Inl e1 \<and>
    startswith a2 ''Bearer '' \<and> jwt_decode (bearer_token a2) secret = Inl e2"
  have g1: "ownership_gate jwt_decode secret (Some a1) user_id = Inl (HTTPException 401 ''Invalid token'')"
    using h by (simp add: gate_verification_failure [where jwt_decode = jwt_decode and e = e1])
  have g2: "ownership_gate jwt_decode secret (Some a2) user_id' = Inl (HTTPException 401 ''Invalid token'')"
    using h by (simp add: gate_verification_failure [where jwt_decode = jwt_decode and e = e2])
  have g0: "ownership_gate jwt_decode secret None user_id
              = Inl (HTTPException 401 ''Missing or invalid token'')"
    by (simp add: ownership_gate_def get_current_user_None)
  show "ownership_gate jwt_decode secret (Some a1) user_id
            = ownership_gate jwt_decode secret (Some a2) user_id'"
    by (simp add: g1 g2)
  show "gate_outcome (ownership_gate jwt_decode secret (Some a1) user_id)
            = gate_outcome (ownership_gate jwt_decode secret None user_id)"
    by (simp add: g1 g0 gate_outcome_def)
  show "gate_outcome (ownership_gate jwt_decode secret (Some a1) user_id) = Unauthenticated"
    by (simp add: g1 gate_outcome_def)
qed

theorem gate_third_outcome_witness:
  "gate_outcome (ownership_gate sample_decode (Some ''s3cret'') (Some ''Bearer good-u1'') ''u3'')
     = ServerError \<and>
   ownership_gate sample_decode (Some ''s3cret'') (Some ''Bearer expired-u1'') ''u3''
     = ownership_gate sample_decode (Some ''s3cret'') (Some ''Bearer forged-u1'') ''u1'' \<and>
   gate_outcome (ownership_gate sample_decode (Some ''s3cret'') (Some ''Bearer expired-u1'') ''u3'')
     = gate_outcome (ownership_gate sample_decode (Some ''s3cret'') None ''u3'')"
proof -
  have s0: "startswith ''Bearer good-u1'' ''Bearer ''"
    and s1: "startswith ''Bearer expired-u1'' ''Bearer ''"
    and s2: "startswith ''Bearer forged-u1'' ''Bearer ''"
    by (simp_all add: startswith_def)
  have d0: "sample_decode (bearer_token ''Bearer good-u1'') (Some ''s3cret'')
             = Inr (documented_payload ''u1'')"
    by (simp add: bearer_token_def sample_decode_def)
  have n0: "documented_payload ''u1'' ''id'' = None"
    by (simp add: documented_payload_def)
  have d1: "sample_decode (bearer_token ''Bearer expired-u1'') (Some ''s3cret'')
             = Inl ExpiredSignatureError"
    by (simp add: bearer_token_def sample_decode_def)
  have d2: "sample_decode (bearer_token ''Bearer forged-u1'') (Some ''s3cret'')
             = Inl InvalidSignatureError"
    by (simp add: bearer_token_def sample_decode_def)
  from gate_third_outcome [of "''Bearer good-u1''" sample_decode "Some ''s3cret''"
        "documented_payload ''u1''" "''u3''" "''Bearer expired-u1''" ExpiredSignatureError
        "''Bearer forged-u1''" InvalidSignatureError "''u1''"] s0 s1 s2 d0 d1 d2 n0
  show ?thesis
    by blast
qed

subsection \<open>The same request, made twice\<close>






section \<open>Facts about the frontend model\<close>

lemma keys_distinct: "AUTH_USER_KEY \<noteq> AUTH_TOKEN_KEY"
  by (simp add: AUTH_USER_KEY_def AUTH_TOKEN_KEY_def js_def)

lemma show_nat_not_Nil: "show_nat n \<noteq> []"
  by (subst show_nat.simps) simp

lemma js_Nil_iff: "js s = [] \<longleftrightarrow> s = []"
  by (simp add: js_def)

lemma decimal_not_Nil: "decimal n \<noteq> []"
  by (subst decimal.simps) simp

lemma positive_number_string_not_Nil: "positive_number_string x \<noteq> []"
  by (simp add: positive_number_string_def Let_def decimal_not_Nil split: prod.splits)

lemma number_string_not_Nil: "number_string x \<noteq> []"
  by (simp add: number_string_def positive_number_string_not_Nil)

lemma number_text_not_Nil: "number_text x \<noteq> []"
  by (simp add: number_text_def js_Nil_iff number_string_not_Nil)

subsection \<open>Rounding to a double\<close>










text \<open>
  The model run on numbers whose doubles and texts are known: \<open>0.1\<close> is the double
  \<open>3602879701896397 / 2^55\<close>; small and large numbers change to the exponent form at
  \<open>10^-7\<close> and \<open>10^21\<close>; a sum that is not exact shows the digits of the double it is
  rounded to.
\<close>

lemma round_double_examples:
  "round_double (1 / 10) = 3602879701896397 / 36028797018963968"
  "round_double (1 / 2) = 1 / 2"
  "js_add (round_double (1 / 10)) (round_double (2 / 10)) = 1351079888211149 / 4503599627370496"
  by code_simp+

lemma number_text_examples:
  "number_text (1 / 10000) = js ''0.0001''"
  "number_text (1 / 10000000) = js ''1e-7''"
  "number_text (10 ^ 20) = js ''100000000000000000000''"
  "number_text (10 ^ 21) = js ''1e+21''"
  "number_text 1700000000 = js ''1700000000''"
  "number_text (- 5 / 2) = js ''-2.5''"
  "number_text (1351079888211149 / 4503599627370496) = js ''0.30000000000000004''"
  by code_simp+


lemma JSON_stringify_not_Nil: "JSON_stringify v \<noteq> []"
  by (cases v) (simp_all add: number_text_not_Nil QuoteJSONString_def js_def)






















subsection \<open>The stored authentication state\<close>

lemma getToken_setAuth:
  "window_defined st \<Longrightarrow> getToken (setAuth user token st) = Some token"
  by (simp add: getToken_def setAuth_def)

lemma getUser_setAuth:
  assumes "window_defined st" and "JSON_parse (JSON_stringify user) = Some user"
  shows "getUser JSON_parse (setAuth user token st) = user"
  using assms by (simp add: getUser_def setAuth_def keys_distinct JSON_stringify_not_Nil)

lemma getters_clearAuth:
  "getUser JSON_parse (clearAuth st) = JNull \<and> getToken (clearAuth st) = None"
  by (simp add: getUser_def getToken_def clearAuth_def)

lemma server_side:
  "\<not> window_defined st \<Longrightarrow>
     getUser JSON_parse st = JNull \<and> getToken st = None \<and> \<not> isAuthenticated JSON_parse st \<and>
     setAuth user token st = st \<and> clearAuth st = st"
  by (simp add: getUser_def getToken_def isAuthenticated_def setAuth_def clearAuth_def truthy_string_def)

text \<open>
  C9.  In a browser (\<open>window\<close> defined), after \<open>setAuth(user, token)\<close> with a user that
  \<open>JSON.parse\<close> reads back from its \<open>JSON.stringify\<close> text, \<open>getUser()\<close> returns that
  user and \<open>getToken()\<close> returns the token; after \<open>clearAuth()\<close> both return \<open>null\<close>.
  \<open>isAuthenticated()\<close> is true exactly when \<open>getToken()\<close> is a non-empty string and
  \<open>getUser()\<close> is truthy.  Where \<open>window\<close> is undefined the getters return \<open>null\<close>,
  \<open>setAuth\<close> and \<open>clearAuth\<close> change nothing and \<open>isAuthenticated()\<close> is false.  Which
  non-empty token is stored makes no difference to \<open>isAuthenticated()\<close>: it does not look
  into the token, so not at its expiry either.
\<close>

theorem auth_state_roundtrip:
  "(window_defined st \<and> JSON_parse (JSON_stringify user) = Some user \<longrightarrow>
      getUser JSON_parse (setAuth user token st) = user \<and>
      getToken (setAuth user token st) = Some token) \<and>
   getUser JSON_parse (clearAuth st) = JNull \<and> getToken (clearAuth st) = None \<and>
   (isAuthenticated JSON_parse st \<longleftrightarrow>
      (\<exists>t. getToken st = Some t \<and> t \<noteq> []) \<and> truthy (getUser JSON_parse st)) \<and>
   (\<not> window_defined st \<longrightarrow>
      \<not> isAuthenticated JSON_parse st \<and> getUser JSON_parse st = JNull \<and> getToken st = None \<and>
      setAuth user token st = st \<and> clearAuth st = st) \<and>
   (window_defined st \<and> t1 \<noteq> [] \<and> t2 \<noteq> [] \<longrightarrow>
      isAuthenticated JSON_parse (st\<lparr>localStorage := (localStorage st)(AUTH_TOKEN_KEY \<mapsto> t1)\<rparr>)
        = isAuthenticated JSON_parse (st\<lparr>localStorage := (localStorage st)(AUTH_TOKEN_KEY \<mapsto> t2)\<rparr>))"
proof (intro conjI impI)
  assume h: "window_defined st \<and> JSON_parse (JSON_stringify user) = Some user"
  then show "getUser JSON_parse (setAuth user token st) = user"
    by (simp add: getUser_setAuth)
  from h show "getToken (setAuth user token st) = Some token"
    by (simp add: getToken_setAuth)
next
  show "getUser JSON_parse (clearAuth st) = JNull" and "getToken (clearAuth st) = None"
    by (simp_all add: getters_clearAuth)
next
  show "isAuthenticated JSON_parse st \<longleftrightarrow>
      (\<exists>t. getToken st = Some t \<and> t \<noteq> []) \<and> truthy (getUser JSON_parse st)"
    by (auto simp: isAuthenticated_def truthy_string_def split: option.splits)
next
  assume w: "\<not> window_defined st"
  from server_side [OF w]
  show "\<not> isAuthenticated JSON_parse st" and "getUser JSON_parse st = JNull"
    and "getToken st = None" and "setAuth user token st = st" and "clearAuth st = st"
    by blast+
next
  assume "window_defined st \<and> t1 \<noteq> [] \<and> t2 \<noteq> []"
  then show "isAuthenticated JSON_parse (st\<lparr>localStorage := (localStorage st)(AUTH_TOKEN_KEY \<mapsto> t1)\<rparr>)
        = isAuthenticated JSON_parse (st\<lparr>localStorage := (localStorage st)(AUTH_TOKEN_KEY \<mapsto> t2)\<rparr>)"
    by (simp add: isAuthenticated_def truthy_string_def getToken_def getUser_def keys_distinct)
qed

lemma sample_parse_roundtrip: "sample_parse (JSON_stringify (JObj [])) = Some (JObj [])"
  by (simp add: sample_parse_def js_def)

theorem auth_state_roundtrip_witness:
  "getUser sample_parse (setAuth (JObj []) (js ''tok'') fresh_browser) = JObj [] \<and>
   getToken (setAuth (JObj []) (js ''tok'') fresh_browser) = Some (js ''tok'') \<and>
   isAuthenticated sample_parse (setAuth (JObj []) (js ''tok'') fresh_browser)"
proof -
  have w: "window_defined fresh_browser"
    by (simp add: fresh_browser_def)
  note t = auth_state_roundtrip [of fresh_browser sample_parse "JObj []" "js ''tok''"]
  from t w sample_parse_roundtrip
  have a: "getUser sample_parse (setAuth (JObj []) (js ''tok'') fresh_browser) = JObj []"
    and b: "getToken (setAuth (JObj []) (js ''tok'') fresh_browser) = Some (js ''tok'')"
    by blast+
  have "js ''tok'' \<noteq> []"
    by (simp add: js_def)
  with a b
    auth_state_roundtrip [of "setAuth (JObj []) (js ''tok'') fresh_browser" sample_parse "JObj []" "js ''tok''"]
  have "isAuthenticated sample_parse (setAuth (JObj []) (js ''tok'') fresh_browser)"
    by simp
  with a b show ?thesis by blast
qed

text \<open>
  The claim as stated, with "non-null" for "truthy" and without the browser context, fails:
  after \<open>setAuth({}, '')\<close> both getters return a value that is not \<open>null\<close>, yet
  \<open>isAuthenticated()\<close> is false; and where \<open>window\<close> is undefined nothing is read back
  after \<open>setAuth\<close>.
\<close>

theorem isAuthenticated_counterexample:
  "getToken (setAuth (JObj []) [] fresh_browser) \<noteq> None \<and>
   getUser sample_parse (setAuth (JObj []) [] fresh_browser) \<noteq> JNull \<and>
   \<not> isAuthenticated sample_parse (setAuth (JObj []) [] fresh_browser) \<and>
   getUser sample_parse (setAuth (JObj []) (js ''tok'') (fresh_browser\<lparr>window_defined := False\<rparr>)) = JNull \<and>
   getToken (setAuth (JObj []) (js ''tok'') (fresh_browser\<lparr>window_defined := False\<rparr>)) = None"
proof -
  have w: "window_defined fresh_browser"
    by (simp add: fresh_browser_def)
  have a: "getToken (setAuth (JObj []) [] fresh_browser) = Some []"
    using w by (simp add: getToken_setAuth)
  have b: "getUser sample_parse (setAuth (JObj []) [] fresh_browser) = JObj []"
    using w sample_parse_roundtrip by (simp add: getUser_setAuth)
  have c: "\<not> isAuthenticated sample_parse (setAuth (JObj []) [] fresh_browser)"
    by (simp add: isAuthenticated_def a truthy_string_def)
  have d: "\<not> window_defined (fresh_browser\<lparr>window_defined := False\<rparr>)"
    by simp
  show ?thesis
    using a b c server_side [OF d] by simp
qed

subsection \<open>apiRequest\<close>

lemma apiRequest_fetch_rejects:
  "fetch (build_request API_URL endpoint opts st) = Inl e \<Longrightarrow>
     apiRequest API_URL fetch endpoint opts st = (Inl e, st\<lparr>console_errors := console_errors st @ [e]\<rparr>)"
  by (simp add: apiRequest_def)

lemma apiRequest_result:
  "fetch (build_request API_URL endpoint opts st) = Inr r \<Longrightarrow>
     fst (apiRequest API_URL fetch endpoint opts st) = fst (handle_response r st)"
  by (simp add: apiRequest_def split: prod.splits sum.splits)

lemma apiRequest_storage:
  "fetch (build_request API_URL endpoint opts st) = Inr r \<Longrightarrow>
     localStorage (snd (apiRequest API_URL fetch endpoint opts st)) = localStorage (snd (handle_response r st)) \<and>
     location_href (snd (apiRequest API_URL fetch endpoint opts st)) = location_href (snd (handle_response r st))"
  by (simp add: apiRequest_def split: prod.splits sum.splits)

lemma handle_response_returns:
  "fst (handle_response r st) = Inr v \<Longrightarrow> ok r \<and> (if status r = 204 then v = JNull else json_body r = Some v)"
  by (auto simp: handle_response_def ok_def Let_def split: if_splits option.splits sum.splits)

lemma handle_response_204: "status r = 204 \<Longrightarrow> fst (handle_response r st) = Inr JNull"
  by (simp add: handle_response_def)

lemma handle_response_ok:
  "ok r \<Longrightarrow> status r \<noteq> 204 \<Longrightarrow>
     fst (handle_response r st) = (case json_body r of Some v \<Rightarrow> Inr v | None \<Rightarrow> Inl SyntaxError)"
  by (auto simp: handle_response_def ok_def split: option.splits)

lemma handle_response_not_ok: "\<not> ok r \<Longrightarrow> \<exists>e. fst (handle_response r st) = Inl e"
  by (auto simp: handle_response_def ok_def Let_def split: option.splits sum.splits)

lemma handle_response_401:
  "status r = 401 \<Longrightarrow>
     handle_response r st =
       (Inl (Error (js ''Unauthorized'')),
        if window_defined st
        then st\<lparr>localStorage := (localStorage st)(js ''auth_token'' := None, js ''auth_user'' := None),
                location_href := js ''/login''\<rparr>
        else st)"
  by (simp add: handle_response_def)

lemma handle_response_state:
  "status r \<noteq> 401 \<Longrightarrow> snd (handle_response r st) = st"
  by (simp add: handle_response_def Let_def split: option.splits sum.splits)

text \<open>
  C10.  When \<open>fetch\<close> rejects, \<open>apiRequest\<close> throws what \<open>fetch\<close> threw.  When \<open>fetch\<close>
  resolves with a response: \<open>apiRequest\<close> returns only for an ok status (200 to 299); for
  status 204 it returns \<open>null\<close>; for another ok status it returns the parsed body when
  the body is JSON and throws otherwise; for every status that is not ok (401, 403, 404
  and 422 among them) it throws.  On status 401 in a browser it removes \<open>auth_token\<close> and
  \<open>auth_user\<close> from \<open>localStorage\<close> and sets the location to \<open>/login\<close>; in every other case
  \<open>localStorage\<close> and the location stay as they were.
\<close>

theorem apiRequest_outcomes:
  "(fetch (build_request API_URL endpoint opts st) = Inl e \<longrightarrow>
      apiRequest API_URL fetch endpoint opts st
        = (Inl e, st\<lparr>console_errors := console_errors st @ [e]\<rparr>)) \<and>
   (fetch (build_request API_URL endpoint opts st) = Inr r \<longrightarrow>
      (\<forall>v. fst (apiRequest API_URL fetch endpoint opts st) = Inr v \<longrightarrow>
           ok r \<and> (if status r = 204 then v = JNull else json_body r = Some v)) \<and>
      (status r = 204 \<longrightarrow> fst (apiRequest API_URL fetch endpoint opts st) = Inr JNull) \<and>
      (ok r \<and> status r \<noteq> 204 \<longrightarrow>
         fst (apiRequest API_URL fetch endpoint opts st)
           = (case json_body r of Some v \<Rightarrow> Inr v | None \<Rightarrow> Inl SyntaxError)) \<and>
      (\<not> ok r \<longrightarrow> (\<exists>err. fst (apiRequest API_URL fetch endpoint opts st) = Inl err)) \<and>
      (status r = 401 \<longrightarrow>
         fst (apiRequest API_URL fetch endpoint opts st) = Inl (Error (js ''Unauthorized''))) \<and>
      (status r = 403 \<longrightarrow>
         fst (apiRequest API_URL fetch endpoint opts st) = Inl (Error (js ''Access denied''))) \<and>
      (status r = 404 \<longrightarrow>
         fst (apiRequest API_URL fetch endpoint opts st) = Inl (Error (js ''Resource not found''))) \<and>
      (status r = 401 \<and> window_defined st \<longrightarrow>
         localStorage (snd (apiRequest API_URL fetch endpoint opts st))
           = (localStorage st)(js ''auth_token'' := None, js ''auth_user'' := None) \<and>
         location_href (snd (apiRequest API_URL fetch endpoint opts st)) = js ''/login'') \<and>
      (status r \<noteq> 401 \<or> \<not> window_defined st \<longrightarrow>
         localStorage (snd (apiRequest API_URL fetch endpoint opts st)) = localStorage st \<and>
         location_href (snd (apiRequest API_URL fetch endpoint opts st)) = location_href st))"
proof (intro conjI impI allI)
  assume "fetch (build_request API_URL endpoint opts st) = Inl e"
  then show "apiRequest API_URL fetch endpoint opts st
        = (Inl e, st\<lparr>console_errors := console_errors st @ [e]\<rparr>)"
    by (rule apiRequest_fetch_rejects)
next
  fix v
  assume f: "fetch (build_request API_URL endpoint opts st) = Inr r"
    and "fst (apiRequest API_URL fetch endpoint opts st) = Inr v"
  then have h: "fst (handle_response r st) = Inr v"
    by (simp add: apiRequest_result)
  from handle_response_returns [OF h]
  show "ok r" and "if status r = 204 then v = JNull else json_body r = Some v"
    by simp_all
next
  assume "fetch (build_request API_URL endpoint opts st) = Inr r" and "status r = 204"
  then show "fst (apiRequest API_URL fetch endpoint opts st) = Inr JNull"
    by (simp add: apiRequest_result handle_response_204)
next
  assume "fetch (build_request API_URL endpoint opts st) = Inr r" and "ok r \<and> status r \<noteq> 204"
  then show "fst (apiRequest API_URL fetch endpoint opts st)
           = (case json_body r of Some v \<Rightarrow> Inr v | None \<Rightarrow> Inl SyntaxError)"
    by (simp add: apiRequest_result handle_response_ok)
next
  assume "fetch (build_request API_URL endpoint opts st) = Inr r" and "\<not> ok r"
  then show "\<exists>err. fst (apiRequest API_URL fetch endpoint opts st) = Inl err"
    by (simp add: apiRequest_result handle_response_not_ok)
next
  assume "fetch (build_request API_URL endpoint opts st) = Inr r" and "status r = 401"
  then show "fst (apiRequest API_URL fetch endpoint opts st) = Inl (Error (js ''Unauthorized''))"
    by (simp add: apiRequest_result handle_response_def)
next
  assume "fetch (build_request API_URL endpoint opts st) = Inr r" and "status r = 403"
  then show "fst (apiRequest API_URL fetch endpoint opts st) = Inl (Error (js ''Access denied''))"
    by (simp add: apiRequest_result handle_response_def)
next
  assume "fetch (build_request API_URL endpoint opts st) = Inr r" and "status r = 404"
  then show "fst (apiRequest API_URL fetch endpoint opts st) = Inl (Error (js ''Resource not found''))"
    by (simp add: apiRequest_result handle_response_def)
next
  assume f: "fetch (build_request API_URL endpoint opts st) = Inr r"
    and h: "status r = 401 \<and> window_defined st"
  from apiRequest_storage [where fetch = fetch, OF f] h
  show "localStorage (snd (apiRequest API_URL fetch endpoint opts st))
           = (localStorage st)(js ''auth_token'' := None, js ''auth_user'' := None)"
    and "location_href (snd (apiRequest API_URL fetch endpoint opts st)) = js ''/login''"
    by (simp_all add: handle_response_401)
next
  assume f: "fetch (build_request API_URL endpoint opts st) = Inr r"
    and h: "status r \<noteq> 401 \<or> \<not> window_defined st"
  have "snd (handle_response r st) = st"
  proof (cases "status r = 401")
    case True
    with h show ?thesis by (simp add: handle_response_401)
  next
    case False
    then show ?thesis by (rule handle_response_state)
  qed
  with apiRequest_storage [where fetch = fetch, OF f]
  show "localStorage (snd (apiRequest API_URL fetch endpoint opts st)) = localStorage st"
    and "location_href (snd (apiRequest API_URL fetch endpoint opts st)) = location_href st"
    by simp_all
qed

theorem apiRequest_outcomes_witness:
  "fst (apiRequest [] (sample_fetch 204 None) [] no_options fresh_browser) = Inr JNull \<and>
   (\<exists>err. fst (apiRequest [] (sample_fetch 401 None) [] no_options fresh_browser) = Inl err) \<and>
   localStorage (snd (apiRequest [] (sample_fetch 401 None) [] no_options fresh_browser))
     = (localStorage fresh_browser)(js ''auth_token'' := None, js ''auth_user'' := None)"
proof -
  have f1: "sample_fetch 204 None (build_request [] [] no_options fresh_browser)
              = Inr \<lparr>status = 204, json_body = None\<rparr>"
    and f2: "sample_fetch 401 None (build_request [] [] no_options fresh_browser)
              = Inr \<lparr>status = 401, json_body = None\<rparr>"
    by (simp_all add: sample_fetch_def)
  have w: "window_defined fresh_browser"
    by (simp add: fresh_browser_def)
  have n: "\<not> ok \<lparr>status = 401, json_body = None\<rparr>"
    by (simp add: ok_def)
  from apiRequest_outcomes [of "sample_fetch 204 None" "[]" "[]" no_options fresh_browser _
      "\<lparr>status = 204, json_body = None\<rparr>"] f1
  have a: "fst (apiRequest [] (sample_fetch 204 None) [] no_options fresh_browser) = Inr JNull"
    by simp
  from apiRequest_outcomes [of "sample_fetch 401 None" "[]" "[]" no_options fresh_browser _
      "\<lparr>status = 401, json_body = None\<rparr>"] f2 w n
  have b: "\<exists>err. fst (apiRequest [] (sample_fetch 401 None) [] no_options fresh_browser) = Inl err"
    and c: "localStorage (snd (apiRequest [] (sample_fetch 401 None) [] no_options fresh_browser))
     = (localStorage fresh_browser)(js ''auth_token'' := None, js ''auth_user'' := None)"
    by simp_all
  from a b c show ?thesis by blast
qed

text \<open>
  The claim as stated fails on two responses with status 200: with the JSON body \<open>null\<close>
  \<open>apiRequest\<close> returns \<open>null\<close> although the status is not 204, and with a body that is
  not JSON it throws although the status is ok.
\<close>

theorem apiRequest_counterexample:
  "fst (apiRequest [] (sample_fetch 200 (Some JNull)) [] no_options fresh_browser) = Inr JNull \<and>
   fst (apiRequest [] (sample_fetch 200 None) [] no_options fresh_browser) = Inl SyntaxError"
  by (simp add: apiRequest_def sample_fetch_def handle_response_def ok_def)

subsection \<open>login and signup\<close>














section \<open>The title of a task\<close>

lemma validate_TaskCreate_accepts:
  "validate_TaskCreate t d = Inr tc \<Longrightarrow>
     t = Some (PStr (new_title tc)) \<and> 1 \<le> length (new_title tc) \<and> length (new_title tc) \<le> 255"
  by (auto simp: validate_TaskCreate_def title_errors_def description_errors_def Suc_le_eq
      split: list.splits option.splits pyval.splits if_splits)

lemma handleSubmit_blank:
  "trim (title f) = [] \<Longrightarrow>
     handleSubmit onSubmit f = (Inr (), f\<lparr>error := JStr (js ''Title is required'')\<rparr>, [])"
  by (simp add: handleSubmit_def)

lemma handleSubmit_calls:
  "trim (title f) \<noteq> [] \<Longrightarrow> snd (snd (handleSubmit onSubmit f)) = [(title f, description f)]"
  by (simp add: handleSubmit_def Let_def split: sum.splits rejection.splits)

text \<open>
  C7.  When the title of the form trims to the empty string, \<open>handleSubmit\<close> sets the
  error \<open>Title is required\<close>, makes no call of \<open>onSubmit\<close> and returns normally; otherwise
  it calls \<open>onSubmit\<close> once, with the title as typed, however that call ends.  The length
  bound is the one of the request schemas: a title that \<open>TaskCreate\<close> or \<open>TaskUpdate\<close>
  accepts is a string of at least 1 and at most 255 characters.  (\<open>handleSubmit\<close> itself
  does not look at the length.)
\<close>

theorem title_nonempty_bounded:
  "(trim (title f) = [] \<longrightarrow>
      handleSubmit onSubmit f = (Inr (), f\<lparr>error := JStr (js ''Title is required'')\<rparr>, [])) \<and>
   (trim (title f) \<noteq> [] \<longrightarrow>
      snd (snd (handleSubmit onSubmit f)) = [(title f, description f)]) \<and>
   (validate_TaskCreate t d = Inr tc \<longrightarrow>
      t = Some (PStr (new_title tc)) \<and> 1 \<le> length (new_title tc) \<and> length (new_title tc) \<le> 255) \<and>
   (validate_TaskUpdate t d = Inr tc \<longrightarrow>
      t = Some (PStr (new_title tc)) \<and> 1 \<le> length (new_title tc) \<and> length (new_title tc) \<le> 255)"
  using handleSubmit_blank [of f onSubmit] handleSubmit_calls [of f onSubmit]
    validate_TaskCreate_accepts [of t d tc]
  by (simp add: validate_TaskUpdate_def)

theorem title_nonempty_bounded_witness:
  "handleSubmit (\<lambda>x. Inr ()) \<lparr>title = js ''  '', description = [], error = JStr []\<rparr>
     = (Inr (), \<lparr>title = js ''  '', description = [], error = JStr (js ''Title is required'')\<rparr>, []) \<and>
   snd (snd (handleSubmit (\<lambda>x. Inl Nullish) \<lparr>title = js '' a'', description = [], error = JStr []\<rparr>))
     = [(js '' a'', [])] \<and>
   validate_TaskCreate (Some (PStr ''Buy groceries'')) None
     = Inr \<lparr>new_title = ''Buy groceries'', new_description = None\<rparr> \<and>
   length ''Buy groceries'' \<le> 255"
proof -
  have b: "trim (title \<lparr>title = js ''  '', description = [], error = JStr []\<rparr>) = []"
    by (simp add: trim_def js_def is_js_space_def)
  have n: "trim (title \<lparr>title = js '' a'', description = [], error = JStr []\<rparr>) \<noteq> []"
    by (simp add: trim_def js_def is_js_space_def)
  have v: "validate_TaskCreate (Some (PStr ''Buy groceries'')) None
     = Inr \<lparr>new_title = ''Buy groceries'', new_description = None\<rparr>"
    by (simp add: validate_TaskCreate_def title_errors_def description_errors_def)
  from title_nonempty_bounded [of "\<lparr>title = js ''  '', description = [], error = JStr []\<rparr>"
      "\<lambda>x. Inr ()" "Some (PStr ''Buy groceries'')" None
      "\<lparr>new_title = ''Buy groceries'', new_description = None\<rparr>"] b v
  have 1: "handleSubmit (\<lambda>x. Inr ()) \<lparr>title = js ''  '', description = [], error = JStr []\<rparr>
     = (Inr (), \<lparr>title = js ''  '', description = [], error = JStr (js ''Title is required'')\<rparr>, [])"
    and 3: "length ''Buy groceries'' \<le> 255"
    by simp_all
  from title_nonempty_bounded [of "\<lparr>title = js '' a'', description = [], error = JStr []\<rparr>"
      "\<lambda>x. Inl Nullish"] n
  have 2: "snd (snd (handleSubmit (\<lambda>x. Inl Nullish)
                       \<lparr>title = js '' a'', description = [], error = JStr []\<rparr>))
     = [(js '' a'', [])]"
    by simp
  from 1 2 3 v show ?thesis by blast
qed

text \<open>
  What \<open>onSubmit\<close> rejects with decides the rest: a value with a message shows the message,
  a value without one shows \<open>Failed to save task\<close>, and on \<open>null\<close> or \<open>undefined\<close> the
  handler itself fails and shows nothing.
\<close>

lemma handleSubmit_rejections:
  assumes "trim (title f) \<noteq> []"
  shows "onSubmit (title f, description f) = Inr () \<Longrightarrow>
           handleSubmit onSubmit f = (Inr (), f\<lparr>error := JStr []\<rparr>, [(title f, description f)])"
    and "onSubmit (title f, description f) = Inl (Thrown (Some (JStr m))) \<Longrightarrow> m \<noteq> [] \<Longrightarrow>
           handleSubmit onSubmit f = (Inr (), f\<lparr>error := JStr m\<rparr>, [(title f, description f)])"
    and "onSubmit (title f, description f) = Inl (Thrown None) \<Longrightarrow>
           handleSubmit onSubmit f
             = (Inr (), f\<lparr>error := JStr (js ''Failed to save task'')\<rparr>, [(title f, description f)])"
    and "onSubmit (title f, description f) = Inl Nullish \<Longrightarrow>
           handleSubmit onSubmit f
             = (Inl TypeError, f\<lparr>error := JStr []\<rparr>, [(title f, description f)])"
  using assms by (simp_all add: handleSubmit_def)


section \<open>Routes: isolation of the users\<close>



lemma find_owner:
  "find (\<lambda>t. task_id t = tid \<and> task_user_id t = uid) ts = Some t \<Longrightarrow>
     t \<in> set ts \<and> task_id t = tid \<and> task_user_id t = uid"
  by (induction ts) (auto split: if_splits)







lemma get_task_facts:
  "get_task uid tid s = (r, s') \<Longrightarrow>
     s' = execute (SelectTasks (Some tid) uid) s \<and>
     (\<forall>t. r = Some t \<longrightarrow> t \<in> set (rows s) \<and> task_id t = tid \<and> task_user_id t = uid)"
  by (auto simp: get_task_def dest: find_owner)









end
